theory Spec2Isabelle
  imports Main "HOL-Library.Word"
begin

unbundle bit_operations_syntax

section \<open>Values shared by the models\<close>

text \<open>
  A Node \<^verbatim>\<open>Buffer\<close> is a list of bytes.  A JavaScript exception is a value of
  \<open>js_error\<close>: \<open>TypeError\<close> for a property read on \<^verbatim>\<open>undefined\<close> or \<^verbatim>\<open>null\<close>,
  \<open>RangeError\<close> for a Buffer read outside the buffer, \<open>Error msg\<close> for
  \<^verbatim>\<open>new Error(msg)\<close> and for the strings and radio-layer errors the code rejects with.
\<close>

type_synonym byte = "8 word"
type_synonym buffer = "byte list"

datatype js_error = TypeError | RangeError | Error string

section \<open>Time codec: \<^verbatim>\<open>bcdByteToInt\<close> and \<^verbatim>\<open>intToBCDByte\<close> (therm-smart.js)\<close>

text \<open>
  The arguments are integer-valued JavaScript numbers, modelled as \<open>int\<close>.  The bitwise
  operators \<^verbatim>\<open>&\<close>, \<^verbatim>\<open><<\<close> and \<^verbatim>\<open>>>\<close> first convert their operands with ToInt32, which
  drops the fraction (rounding towards zero) and wraps modulo \<open>2 ^ 32\<close>, and they return
  a signed 32-bit value.  So \<^verbatim>\<open>(i / 10) << 4\<close> shifts the quotient truncated towards zero
  (\<open>js_quot\<close>), and \<^verbatim>\<open>%\<close> is the remainder with the sign of the dividend (\<open>js_rem\<close>).
\<close>

definition toInt32 :: "int \<Rightarrow> 32 word" where
  "toInt32 x = word_of_int x"

definition js_quot :: "int \<Rightarrow> int \<Rightarrow> int" where
  "js_quot a b = sgn a * sgn b * (\<bar>a\<bar> div \<bar>b\<bar>)"

definition js_rem :: "int \<Rightarrow> int \<Rightarrow> int" where
  "js_rem a b = sgn a * (\<bar>a\<bar> mod \<bar>b\<bar>)"

definition bcdByteToInt :: "int \<Rightarrow> int" where
  "bcdByteToInt b =
     sint (signed_drop_bit 4 (toInt32 b AND 0xf0)) * 10 + sint (toInt32 b AND 0xf)"

definition intToBCDByte :: "int \<Rightarrow> int" where
  "intToBCDByte i = sint (push_bit 4 (toInt32 (js_quot i 10))) + js_rem i 10"

section \<open>Hexadecimal strings and \<^verbatim>\<open>parseInt\<close>\<close>

text \<open>
  \<open>toString_hex data start end'\<close> is \<^verbatim>\<open>data.toString('hex', start, end)\<close>: two lower-case
  hexadecimal digits per byte of the slice, the empty string when the slice is empty or
  starts beyond the buffer.  \<open>toString16 n\<close> is \<^verbatim>\<open>n.toString(16)\<close> of a non-negative
  integer: lower-case digits, no leading zeros.
\<close>

definition hexDigit :: "nat \<Rightarrow> char" where
  "hexDigit d = ''0123456789abcdef'' ! d"

definition byteToHex :: "byte \<Rightarrow> string" where
  "byteToHex b = [hexDigit (unat b div 16), hexDigit (unat b mod 16)]"

definition toString_hex :: "buffer \<Rightarrow> nat \<Rightarrow> nat \<Rightarrow> string" where
  "toString_hex data start end' =
     (if length data \<le> start then []
      else let e = min end' (length data)
           in if e \<le> start then []
              else concat (map byteToHex (take (e - start) (drop start data))))"

fun toString16 :: "nat \<Rightarrow> string" where
  "toString16 n =
     (if n < 16 then [hexDigit n] else toString16 (n div 16) @ [hexDigit (n mod 16)])"

declare toString16.simps [simp del]

text \<open>
  \<open>parseInt s\<close> is \<^verbatim>\<open>parseInt(s)\<close> with no radix argument; \<open>None\<close> is \<^verbatim>\<open>NaN\<close>.  Leading
  white space is skipped, a sign is read, the prefix \<^verbatim>\<open>0x\<close> or \<^verbatim>\<open>0X\<close> selects radix 16
  and anything else radix 10; the longest prefix of digits of that radix is the number,
  and the rest of the string is ignored.  No digit at all gives \<^verbatim>\<open>NaN\<close>.
\<close>

definition isStrWhiteSpace :: "char \<Rightarrow> bool" where
  "isStrWhiteSpace c = (of_char c \<in> {9, 10, 11, 12, 13, 32 :: nat})"

definition digitOf :: "char \<Rightarrow> nat option" where
  "digitOf c =
     (let k = (of_char c :: nat)
      in if 48 \<le> k \<and> k \<le> 57 then Some (k - 48)
         else if 97 \<le> k \<and> k \<le> 122 then Some (k - 87)
         else if 65 \<le> k \<and> k \<le> 90 then Some (k - 55)
         else None)"

fun digitsPrefix :: "nat \<Rightarrow> string \<Rightarrow> nat list" where
  "digitsPrefix R [] = []"
| "digitsPrefix R (c # cs) =
     (case digitOf c of
        None \<Rightarrow> []
      | Some d \<Rightarrow> if d < R then d # digitsPrefix R cs else [])"

definition digitsValue :: "nat \<Rightarrow> nat list \<Rightarrow> nat" where
  "digitsValue R ds = foldl (\<lambda>acc d. acc * R + d) 0 ds"

definition parseInt :: "string \<Rightarrow> int option" where
  "parseInt s =
     (let t = dropWhile isStrWhiteSpace s;
          sign = (if take 1 t = ''-'' then - 1 else 1 :: int);
          u = (if take 1 t = ''-'' \<or> take 1 t = ''+'' then drop 1 t else t);
          hex = (take 2 u = ''0x'' \<or> take 2 u = ''0X'');
          R = (if hex then 16 else 10);
          ds = digitsPrefix R (if hex then drop 2 u else u)
      in if ds = [] then None else Some (sign * int (digitsValue R ds)))"

section \<open>The humidity decoder \<^verbatim>\<open>readRelativeHumidity\<close> (ThermSmartSensor)\<close>

definition readRelativeHumidity :: "buffer \<Rightarrow> nat \<Rightarrow> int option" where
  "readRelativeHumidity data position =
     parseInt (toString_hex data position (position + 1))"

section \<open>Buffer reads\<close>

text \<open>
  \<^verbatim>\<open>data.readUIntLE(offset, byteLength)\<close> reads \<open>byteLength\<close> bytes, least significant
  first, and throws a RangeError when they are not all inside the buffer;
  \<^verbatim>\<open>data.readUInt16LE(offset)\<close> is the read of two bytes.
\<close>

definition readUIntLE :: "buffer \<Rightarrow> nat \<Rightarrow> nat \<Rightarrow> js_error + nat" where
  "readUIntLE data offset byteLength =
     (if length data < offset + byteLength then Inl RangeError
      else Inr (foldr (\<lambda>b acc. unat b + 256 * acc) (take byteLength (drop offset data)) 0))"

definition readUInt16LE :: "buffer \<Rightarrow> nat \<Rightarrow> js_error + nat" where
  "readUInt16LE data offset = readUIntLE data offset 2"

section \<open>The reading scan: \<^verbatim>\<open>discoverHandler\<close> of \<^verbatim>\<open>ThermSmart.scanForReadings\<close>\<close>

text \<open>
  Of a noble peripheral the code reads \<^verbatim>\<open>peripheral.id\<close>, \<^verbatim>\<open>peripheral.address\<close> (which may
  be \<^verbatim>\<open>undefined\<close>: \<open>None\<close>), \<^verbatim>\<open>peripheral.state\<close> (\<^verbatim>\<open>'connected'\<close>, \<^verbatim>\<open>'disconnected'\<close>, ...)
  and \<^verbatim>\<open>peripheral.advertisement.manufacturerData\<close> (a Buffer, or \<^verbatim>\<open>undefined\<close> when the
  advertisement has no manufacturer-data field: \<open>None\<close>).
\<close>

record peripheral =
  pid :: string
  address :: "string option"
  pstate :: string
  manufacturerData :: "buffer option"

definition COMPANY_ID :: nat where
  "COMPANY_ID = 0x4842"

definition stripColons :: "string \<Rightarrow> string" where
  "stripColons s = filter (\<lambda>c. c \<noteq> CHR '':'') s"

text \<open>JavaScript truthiness of a value that is a string or \<^verbatim>\<open>undefined\<close>.\<close>

definition truthy :: "string option \<Rightarrow> bool" where
  "truthy v = (case v of None \<Rightarrow> False | Some s \<Rightarrow> s \<noteq> [])"

text \<open>\<^verbatim>\<open>addresses.indexOf(address) === -1\<close>: strict equality, so \<^verbatim>\<open>undefined\<close> is never found.\<close>

definition notListed :: "string list \<Rightarrow> string option \<Rightarrow> bool" where
  "notListed addresses v = (case v of None \<Rightarrow> True | Some a \<Rightarrow> a \<notin> set addresses)"

text \<open>
  \<open>discoverHandler parseReadings readingHandler addresses p\<close> is one run of the
  \<^verbatim>\<open>discover\<close> listener on the peripheral \<open>p\<close>.  \<open>Inl e\<close>: the listener throws \<open>e\<close>.
  \<open>Inr cs\<close>: it returns, having called \<^verbatim>\<open>readingHandler\<close> once for each pair of \<open>cs\<close>, in
  this order.  \<open>parseReadings\<close> stands for \<^verbatim>\<open>Reading.parseReadings\<close>, whose module is not part
  of the sources at hand; \<open>readingHandler\<close> says whether a callback was passed;
  \<open>addresses\<close> is the allowlist (\<open>None\<close> when \<^verbatim>\<open>null\<close> or \<^verbatim>\<open>undefined\<close>; an empty array is
  truthy in JavaScript and lists nothing).
\<close>

definition discoverHandler ::
  "(buffer \<Rightarrow> 'r list) \<Rightarrow> bool \<Rightarrow> string list option \<Rightarrow> peripheral
     \<Rightarrow> js_error + ('r \<times> peripheral) list" where
  "discoverHandler parseReadings readingHandler addresses p =
     (case manufacturerData p of
        None \<Rightarrow> Inl TypeError
      | Some data \<Rightarrow>
          if length data < 9 then Inr []
          else
            (case readUInt16LE data 0 of
               Inl e \<Rightarrow> Inl e
             | Inr company \<Rightarrow>
                 if company \<noteq> COMPANY_ID then Inr []
                 else
                   let addr = map_option stripColons (address p)
                   in
                     (case (if truthy addr
                            then (case readUIntLE data 2 6 of
                                    Inl e \<Rightarrow> Inl e
                                  | Inr n \<Rightarrow> Inr (Some (toString16 n) \<noteq> addr))
                            else Inr False) of
                        Inl e \<Rightarrow> Inl e
                      | Inr mismatch \<Rightarrow>
                          if mismatch then Inr []
                          else if (case addresses of
                                     None \<Rightarrow> False
                                   | Some as \<Rightarrow> notListed as addr)
                          then Inr []
                          else if readingHandler
                               then Inr (map (\<lambda>reading. (reading, p))
                                          (parseReadings (drop 8 data)))
                               else Inr [])))"

text \<open>
  The address a manufacturer-data field carries in bytes 2 to 7, as the handler renders
  it for the comparison; \<open>None\<close> when the field is too short to hold it.
\<close>

definition derivedAddress :: "buffer \<Rightarrow> string option" where
  "derivedAddress data =
     (case readUIntLE data 2 6 of Inl e \<Rightarrow> None | Inr n \<Rightarrow> Some (toString16 n))"

section \<open>Promises, radio events and radio actions\<close>

text \<open>
  A promise is pending or settled, and settling a settled promise does nothing.  The
  radio layer (noble) reports to the code through callbacks and events; a call in
  flight is a state that each such report advances.  \<open>radio_event\<close> lists the reports:
  a change of \<^verbatim>\<open>noble.state\<close>, the passing of some milliseconds with no other report, the
  callbacks of \<^verbatim>\<open>startScanning\<close>, \<^verbatim>\<open>peripheral.connect\<close>,
  \<^verbatim>\<open>discoverSomeServicesAndCharacteristics\<close>, \<^verbatim>\<open>subscribe\<close> and \<^verbatim>\<open>write\<close> (each with its error
  argument, \<open>None\<close> when there is none), a \<^verbatim>\<open>discover\<close> event, a \<^verbatim>\<open>data\<close> event of the notify
  characteristic (the payload and the \<^verbatim>\<open>isNotification\<close> flag) and the \<^verbatim>\<open>disconnect\<close>
  event of the peripheral.  \<open>action\<close> lists what the code asks of the radio layer and the
  events it emits itself.
\<close>

datatype 'a promise = Pending | Resolved 'a | Rejected js_error

definition resolve :: "'a \<Rightarrow> 'a promise \<Rightarrow> 'a promise" where
  "resolve v p = (case p of Pending \<Rightarrow> Resolved v | Resolved u \<Rightarrow> p | Rejected e \<Rightarrow> p)"

definition reject :: "js_error \<Rightarrow> 'a promise \<Rightarrow> 'a promise" where
  "reject e p = (case p of Pending \<Rightarrow> Rejected e | Resolved u \<Rightarrow> p | Rejected e' \<Rightarrow> p)"

record characteristic =
  uuid :: string
  handle :: nat

datatype radio_event =
    StateChange string
  | Elapse nat
  | ScanStarted "js_error option"
  | Discovered peripheral
  | ConnectDone "js_error option"
  | DiscoverDone "js_error option" "characteristic list"
  | SubscribeDone "js_error option"
  | WriteDone "js_error option"
  | Notification buffer bool
  | Disconnected

datatype action =
    Emit string
  | StartScanning
  | StopScanning
  | PeripheralConnect
  | DiscoverCharacteristics
  | Subscribe characteristic
  | Write characteristic buffer

definition SERVICE_UUID :: string where
  "SERVICE_UUID = ''fff0''"

definition WRITE_CHARACTERISTIC_UUID :: string where
  "WRITE_CHARACTERISTIC_UUID = ''fff3''"

definition NOTIFY_CHARACTERISTIC_UUID :: string where
  "NOTIFY_CHARACTERISTIC_UUID = ''fff4''"

section \<open>Waiting for the radio: \<^verbatim>\<open>ThermSmart.powerOn\<close> and \<^verbatim>\<open>ThermSmartSensor.isPoweredOn\<close>\<close>

text \<open>
  The state of a wait: \<^verbatim>\<open>noble.state\<close>, whether \<^verbatim>\<open>stateChangeHandler\<close> is registered, the
  milliseconds left on the timer (\<open>None\<close> when no timer is armed) and the promise the
  call returned.  noble assigns \<^verbatim>\<open>noble.state\<close> before it emits \<^verbatim>\<open>stateChange\<close>.
\<close>

record power_wait =
  nobleState :: string
  stateChangeHandler :: bool
  timer :: "nat option"
  outcome :: "unit promise"

definition powerOn :: "string \<Rightarrow> power_wait" where
  "powerOn state =
     (if state = ''poweredOn''
      then \<lparr>nobleState = state, stateChangeHandler = False, timer = None,
            outcome = Resolved ()\<rparr>
      else \<lparr>nobleState = state, stateChangeHandler = True, timer = Some 5000,
            outcome = Pending\<rparr>)"

fun powerOn_event :: "radio_event \<Rightarrow> power_wait \<Rightarrow> power_wait" where
  "powerOn_event (StateChange state) w =
     (if stateChangeHandler w \<and> state = ''poweredOn''
      then w\<lparr>nobleState := state, timer := None, stateChangeHandler := False,
             outcome := resolve () (outcome w)\<rparr>
      else w\<lparr>nobleState := state\<rparr>)"
| "powerOn_event (Elapse ms) w =
     (case timer w of
        None \<Rightarrow> w
      | Some left \<Rightarrow>
          if ms < left then w\<lparr>timer := Some (left - ms)\<rparr>
          else w\<lparr>timer := None, stateChangeHandler := False,
                 outcome := reject (Error (''Timeout while waiting for power on (state: ''
                                           @ nobleState w @ '')'')) (outcome w)\<rparr>)"
| "powerOn_event ev w = w"

definition isPoweredOn :: "string \<Rightarrow> power_wait" where
  "isPoweredOn state =
     (if state = ''poweredOn''
      then \<lparr>nobleState = state, stateChangeHandler = False, timer = None,
            outcome = Resolved ()\<rparr>
      else \<lparr>nobleState = state, stateChangeHandler = True, timer = None,
            outcome = Pending\<rparr>)"

fun isPoweredOn_event :: "radio_event \<Rightarrow> power_wait \<Rightarrow> power_wait" where
  "isPoweredOn_event (StateChange state) w =
     (if stateChangeHandler w \<and> state = ''poweredOn''
      then w\<lparr>nobleState := state, stateChangeHandler := False,
             outcome := resolve () (outcome w)\<rparr>
      else w\<lparr>nobleState := state\<rparr>)"
| "isPoweredOn_event ev w = w"

text \<open>The milliseconds that pass during a sequence of reports.\<close>

fun elapsed :: "radio_event list \<Rightarrow> nat" where
  "elapsed [] = 0"
| "elapsed (Elapse ms # evs) = ms + elapsed evs"
| "elapsed (ev # evs) = elapsed evs"

definition neverPoweredOn :: "radio_event list \<Rightarrow> bool" where
  "neverPoweredOn evs = (StateChange ''poweredOn'' \<notin> set evs)"

section \<open>The \<^verbatim>\<open>ThermSmart\<close> device session\<close>

text \<open>
  The fields of a \<^verbatim>\<open>ThermSmart\<close> instance that its operations read or assign.  The
  characteristic fields are \<^verbatim>\<open>undefined\<close> (\<open>None\<close>) until a discovery assigns them.
\<close>

record session =
  peripheral :: peripheral
  writeCharacteristic :: "characteristic option"
  notifyCharacteristic :: "characteristic option"

definition ThermSmart :: "peripheral \<Rightarrow> session" where
  "ThermSmart p = \<lparr>peripheral = p, writeCharacteristic = None, notifyCharacteristic = None\<rparr>"

text \<open>
  noble keeps \<^verbatim>\<open>peripheral.state\<close>: it is \<^verbatim>\<open>'connected'\<close> once a connect has succeeded and
  \<^verbatim>\<open>'disconnected'\<close> once the link is closed, by either side.  The code compares the
  state with \<^verbatim>\<open>'connected'\<close> only, so the values noble gives it while a connect is under
  way are not tracked.
\<close>

definition setState :: "string \<Rightarrow> session \<Rightarrow> session" where
  "setState st s = s\<lparr>peripheral := (peripheral s)\<lparr>pstate := st\<rparr>\<rparr>"


subsection \<open>\<^verbatim>\<open>connect\<close>, \<^verbatim>\<open>_getCharacteristics\<close>, \<^verbatim>\<open>_setupListeners\<close>\<close>

text \<open>
  A \<^verbatim>\<open>connect()\<close> call in flight: the session, the step of the promise chain that is
  waiting for the radio layer, the promise the call returned, and the actions done so
  far, in order.  \<open>Finished\<close>: no step is waiting.
\<close>

datatype connect_step = AwaitConnect | AwaitDiscover | AwaitSubscribe | Finished

record connect_call =
  cSession :: session
  cStep :: connect_step
  cPromise :: "unit promise"
  cActions :: "action list"

definition disconnectedUnexpectedly :: js_error where
  "disconnectedUnexpectedly = Error ''Peripheral disconnected unexpectedly''"

text \<open>
  The last step of the chain: \<^verbatim>\<open>_setupListeners\<close>, then \<^verbatim>\<open>emit('connected')\<close>.  Reading
  \<^verbatim>\<open>this.notifyCharacteristic.subscribe\<close> throws inside the promise's executor when the
  field is \<^verbatim>\<open>undefined\<close>, which rejects the promise.
\<close>

definition setupListeners :: "connect_call \<Rightarrow> connect_call" where
  "setupListeners c =
     (case notifyCharacteristic (cSession c) of
        None \<Rightarrow> c\<lparr>cStep := Finished, cPromise := reject TypeError (cPromise c)\<rparr>
      | Some n \<Rightarrow> c\<lparr>cStep := AwaitSubscribe, cActions := cActions c @ [Subscribe n]\<rparr>)"

definition getCharacteristics :: "connect_call \<Rightarrow> connect_call" where
  "getCharacteristics c =
     c\<lparr>cStep := AwaitDiscover, cActions := cActions c @ [DiscoverCharacteristics]\<rparr>"

definition connect :: "session \<Rightarrow> connect_call" where
  "connect s =
     (if pstate (peripheral s) = ''connected''
      then getCharacteristics
             \<lparr>cSession = s, cStep = Finished, cPromise = Pending,
              cActions = [Emit ''connecting'']\<rparr>
      else \<lparr>cSession = s, cStep = AwaitConnect, cPromise = Pending,
            cActions = [Emit ''connecting'', PeripheralConnect]\<rparr>)"

text \<open>
  One report while the call is in flight.  A step hears only its own callback and, in
  \<^verbatim>\<open>_getCharacteristics\<close> and \<^verbatim>\<open>_setupListeners\<close>, the \<^verbatim>\<open>disconnect\<close> event; the callback of
  the discovery assigns the two fields even when the promise was rejected meanwhile,
  but the chain goes on only from a promise that was still pending.
\<close>

fun connect_event :: "radio_event \<Rightarrow> connect_call \<Rightarrow> connect_call" where
  "connect_event (ConnectDone error) c =
     (if cStep c \<noteq> AwaitConnect then c
      else case error of
        Some e \<Rightarrow> c\<lparr>cStep := Finished, cPromise := reject e (cPromise c)\<rparr>
      | None \<Rightarrow> getCharacteristics (c\<lparr>cSession := setState ''connected'' (cSession c)\<rparr>))"
| "connect_event (DiscoverDone error characteristics) c =
     (if cStep c \<noteq> AwaitDiscover then c
      else case error of
        Some e \<Rightarrow> c\<lparr>cStep := Finished, cPromise := reject e (cPromise c)\<rparr>
      | None \<Rightarrow>
          let c' = c\<lparr>cSession := (cSession c)
                     \<lparr>writeCharacteristic :=
                        find (\<lambda>ch. uuid ch = WRITE_CHARACTERISTIC_UUID) characteristics,
                      notifyCharacteristic :=
                        find (\<lambda>ch. uuid ch = NOTIFY_CHARACTERISTIC_UUID) characteristics\<rparr>\<rparr>
          in if cPromise c = Pending then setupListeners c' else c'\<lparr>cStep := Finished\<rparr>)"
| "connect_event (SubscribeDone error) c =
     (if cStep c \<noteq> AwaitSubscribe then c
      else case error of
        Some e \<Rightarrow> c\<lparr>cStep := Finished, cPromise := reject e (cPromise c)\<rparr>
      | None \<Rightarrow>
          if cPromise c = Pending
          then c\<lparr>cStep := Finished, cPromise := Resolved (),
                 cActions := cActions c @ [Emit ''connected'']\<rparr>
          else c\<lparr>cStep := Finished\<rparr>)"
| "connect_event Disconnected c =
     (let c' = c\<lparr>cSession := setState ''disconnected'' (cSession c)\<rparr>
      in if cStep c = AwaitDiscover \<or> cStep c = AwaitSubscribe
         then c'\<lparr>cPromise := reject disconnectedUnexpectedly (cPromise c)\<rparr>
         else c')"
| "connect_event ev c = c"

subsection \<open>\<^verbatim>\<open>write\<close>\<close>

text \<open>
  A \<^verbatim>\<open>write(data, responseCommand)\<close> call in flight.  \<open>responseCommand\<close> is a number, or
  \<open>None\<close> for \<^verbatim>\<open>null\<close>; \<open>dataHandler\<close> says whether the handler is registered on the notify
  characteristic; the promise resolves with the received payload, or with \<open>None\<close> for
  \<^verbatim>\<open>resolve()\<close>.  The fields of the session are not reassigned while the call is in flight.
  In the write callback, \<^verbatim>\<open>this.notifyCharacteristic.removeListener\<close> throws when the field is
  \<^verbatim>\<open>undefined\<close>, before \<^verbatim>\<open>reject\<close> is reached.
\<close>

record write_call =
  wSession :: session
  responseCommand :: "nat option"
  dataHandler :: bool
  wPromise :: "buffer option promise"
  wActions :: "action list"

text \<open>\<^verbatim>\<open>receivedData[0] === responseCommand\<close>; the first element of an empty buffer is \<^verbatim>\<open>undefined\<close>.\<close>

definition firstByteIs :: "nat option \<Rightarrow> buffer \<Rightarrow> bool" where
  "firstByteIs command receivedData =
     (case receivedData of [] \<Rightarrow> False | b # bs \<Rightarrow> command = Some (unat b))"

definition write_cmd :: "session \<Rightarrow> buffer \<Rightarrow> nat option \<Rightarrow> write_call" where
  "write_cmd s data command =
     (if command \<noteq> None \<and> notifyCharacteristic s = None
      then \<lparr>wSession = s, responseCommand = command, dataHandler = False,
            wPromise = Rejected TypeError, wActions = []\<rparr>
      else case writeCharacteristic s of
        None \<Rightarrow> \<lparr>wSession = s, responseCommand = command, dataHandler = (command \<noteq> None),
                  wPromise = Rejected TypeError, wActions = []\<rparr>
      | Some w \<Rightarrow> \<lparr>wSession = s, responseCommand = command, dataHandler = (command \<noteq> None),
                    wPromise = Pending, wActions = [Write w data]\<rparr>)"

fun write_event :: "radio_event \<Rightarrow> write_call \<Rightarrow> write_call" where
  "write_event (Notification receivedData isNotification) c =
     (if dataHandler c \<and> firstByteIs (responseCommand c) receivedData
      then c\<lparr>dataHandler := False, wPromise := resolve (Some receivedData) (wPromise c)\<rparr>
      else c)"
| "write_event (WriteDone error) c =
     (let c' = c\<lparr>wActions := wActions c @ [Emit ''write'']\<rparr>
      in case error of
           Some e \<Rightarrow>
             if notifyCharacteristic (wSession c) = None then c'
             else c'\<lparr>dataHandler := False, wPromise := reject e (wPromise c)\<rparr>
         | None \<Rightarrow>
             if responseCommand c = None then c'\<lparr>wPromise := resolve None (wPromise c)\<rparr>
             else c')"
| "write_event Disconnected c = c\<lparr>wSession := setState ''disconnected'' (wSession c)\<rparr>"
| "write_event ev c = c"

text \<open>A session is ready when it is connected and both characteristics are resolved.\<close>

definition ready :: "session \<Rightarrow> bool" where
  "ready s = (pstate (peripheral s) = ''connected''
              \<and> writeCharacteristic s \<noteq> None \<and> notifyCharacteristic s \<noteq> None)"

text \<open>
  The reports that leave a pending \<^verbatim>\<open>write(data, X)\<close> waiting: every report but a
  notification whose first byte is \<open>X\<close> and a write callback with an error.
\<close>

fun unanswered :: "nat \<Rightarrow> radio_event \<Rightarrow> bool" where
  "unanswered X (Notification receivedData isNotification) = (\<not> firstByteIs (Some X) receivedData)"
| "unanswered X (WriteDone error) = (error = None)"
| "unanswered X ev = True"

section \<open>The \<^verbatim>\<open>ThermSmartSensor\<close> device session\<close>

text \<open>The fields of a \<^verbatim>\<open>ThermSmartSensor\<close> instance; \<open>None\<close> is \<^verbatim>\<open>null\<close>.\<close>

record sensor =
  sensor_address :: "string option"
  sensor_peripheral :: "peripheral option"
  sensor_writeCharacteristic :: "characteristic option"
  sensor_notifyCharacteristic :: "characteristic option"
  temperatureData :: "buffer option"

definition ThermSmartSensor :: "string option \<Rightarrow> sensor" where
  "ThermSmartSensor a =
     \<lparr>sensor_address = a, sensor_peripheral = None, sensor_writeCharacteristic = None,
      sensor_notifyCharacteristic = None, temperatureData = None\<rparr>"

definition handleDisconnect :: "sensor \<Rightarrow> sensor" where
  "handleDisconnect s =
     s\<lparr>sensor_peripheral := None, sensor_writeCharacteristic := None,
       sensor_notifyCharacteristic := None, temperatureData := None\<rparr>"

text \<open>
  The \<^verbatim>\<open>disconnect\<close> event of the sensor's peripheral.  \<^verbatim>\<open>scan\<close> registers
  \<^verbatim>\<open>handleDisconnect\<close> for it, once, when it stores a discovered peripheral in the field,
  and the handler empties the field: the listener is registered exactly while the field
  holds a peripheral.
\<close>

definition sensor_disconnect :: "sensor \<Rightarrow> sensor" where
  "sensor_disconnect s =
     (case sensor_peripheral s of None \<Rightarrow> s | Some p \<Rightarrow> handleDisconnect s)"

text \<open>The text of an error, as string concatenation renders it.\<close>

fun errorText :: "js_error \<Rightarrow> string" where
  "errorText TypeError = ''TypeError''"
| "errorText RangeError = ''RangeError''"
| "errorText (Error msg) = ''Error: '' @ msg"

subsection \<open>\<^verbatim>\<open>scan\<close> and \<^verbatim>\<open>connect\<close>\<close>

text \<open>
  A \<^verbatim>\<open>connect()\<close> call of the sensor in flight: the sensor, \<^verbatim>\<open>noble.state\<close>, the waiting
  step, the peripheral that \<^verbatim>\<open>scan\<close> resolved with (the variable the callbacks of
  \<^verbatim>\<open>connect\<close> close over), the promise and the actions.  The calls of \<^verbatim>\<open>this.log\<close> are left
  out.
\<close>

datatype sensor_step =
  SAwaitPower | SAwaitScanStart | SScanning | SAwaitConnect | SAwaitDiscover
  | SAwaitSubscribe | SFinished

record sensor_call =
  sSensor :: sensor
  sNobleState :: string
  sStep :: sensor_step
  sFound :: "peripheral option"
  sPromise :: "peripheral promise"
  sActions :: "action list"

definition afterScan :: "peripheral \<Rightarrow> sensor_call \<Rightarrow> sensor_call" where
  "afterScan p c =
     (if pstate p = ''connected''
      then c\<lparr>sStep := SFinished, sFound := Some p, sPromise := resolve p (sPromise c)\<rparr>
      else c\<lparr>sStep := SAwaitConnect, sFound := Some p,
             sActions := sActions c @ [PeripheralConnect]\<rparr>)"

definition afterPower :: "sensor_call \<Rightarrow> sensor_call" where
  "afterPower c =
     (case sensor_peripheral (sSensor c) of
        Some p \<Rightarrow> afterScan p c
      | None \<Rightarrow> c\<lparr>sStep := SAwaitScanStart, sActions := sActions c @ [StartScanning]\<rparr>)"

definition sensor_connect :: "string \<Rightarrow> sensor \<Rightarrow> sensor_call" where
  "sensor_connect state s =
     (let c = \<lparr>sSensor = s, sNobleState = state, sStep = SAwaitPower, sFound = None,
               sPromise = Pending, sActions = []\<rparr>
      in if state = ''poweredOn'' then afterPower c else c)"

text \<open>\<^verbatim>\<open>characteristics.forEach\<close> of the discovery callback: the last one of each kind stays.\<close>

fun assignCharacteristics :: "characteristic list \<Rightarrow> sensor \<Rightarrow> sensor" where
  "assignCharacteristics [] s = s"
| "assignCharacteristics (ch # chs) s =
     assignCharacteristics chs
       (if uuid ch = WRITE_CHARACTERISTIC_UUID then s\<lparr>sensor_writeCharacteristic := Some ch\<rparr>
        else if uuid ch = NOTIFY_CHARACTERISTIC_UUID
             then s\<lparr>sensor_notifyCharacteristic := Some ch\<rparr>
             else s)"

definition markFound :: "string \<Rightarrow> sensor_call \<Rightarrow> sensor_call" where
  "markFound st c =
     c\<lparr>sFound := map_option (\<lambda>p. p\<lparr>pstate := st\<rparr>) (sFound c),
       sSensor := (sSensor c)\<lparr>sensor_peripheral :=
                     map_option (\<lambda>p. p\<lparr>pstate := st\<rparr>) (sensor_peripheral (sSensor c))\<rparr>\<rparr>"

text \<open>
  One report while the call is in flight.  In the discovery callback,
  \<^verbatim>\<open>this.notifyCharacteristic.subscribe\<close> throws when no notify characteristic was found
  (or a disconnect has emptied the field): the exception leaves the callback and the
  promise stays pending.
\<close>

fun sensor_connect_event :: "radio_event \<Rightarrow> sensor_call \<Rightarrow> sensor_call" where
  "sensor_connect_event (StateChange state) c =
     (let c' = c\<lparr>sNobleState := state\<rparr>
      in if sStep c = SAwaitPower \<and> state = ''poweredOn'' then afterPower c'
         else if sStep c = SScanning \<and> state \<noteq> ''poweredOn''
         then c'\<lparr>sStep := SFinished, sActions := sActions c @ [StopScanning],
                 sPromise := reject (Error (''State is no longer poweredOn ('' @ state @ '')''))
                               (sPromise c)\<rparr>
         else c')"
| "sensor_connect_event (ScanStarted error) c =
     (if sStep c \<noteq> SAwaitScanStart then c
      else case error of
        Some e \<Rightarrow> c\<lparr>sStep := SFinished,
                     sPromise := reject (Error (''Failed to scan for sensors: '' @ errorText e))
                                   (sPromise c)\<rparr>
      | None \<Rightarrow> c\<lparr>sStep := SScanning\<rparr>)"
| "sensor_connect_event (Discovered p) c =
     (if sStep c \<noteq> SScanning then c
      else if sensor_address (sSensor c) = None \<or> sensor_address (sSensor c) = address p
      then afterScan p (c\<lparr>sSensor := (sSensor c)\<lparr>sensor_peripheral := Some p\<rparr>,
                          sActions := sActions c @ [StopScanning]\<rparr>)
      else c)"
| "sensor_connect_event (ConnectDone error) c =
     (if sStep c \<noteq> SAwaitConnect then c
      else case error of
        Some e \<Rightarrow> c\<lparr>sStep := SFinished,
                     sPromise := reject (Error (''Failed to connect to sensor: '' @ errorText e))
                                   (sPromise c)\<rparr>
      | None \<Rightarrow> markFound ''connected''
                  (c\<lparr>sStep := SAwaitDiscover,
                     sActions := sActions c @ [DiscoverCharacteristics]\<rparr>))"
| "sensor_connect_event (DiscoverDone error characteristics) c =
     (if sStep c \<noteq> SAwaitDiscover then c
      else case error of
        Some e \<Rightarrow>
          c\<lparr>sStep := SFinished,
            sPromise := reject (Error (''Failed to discover services and characteristics: ''
                                       @ errorText e)) (sPromise c)\<rparr>
      | None \<Rightarrow>
          (let s' = assignCharacteristics characteristics (sSensor c)
           in (case sensor_notifyCharacteristic s' of
                 None \<Rightarrow> c\<lparr>sSensor := s', sStep := SFinished\<rparr>
               | Some n \<Rightarrow> c\<lparr>sSensor := s', sStep := SAwaitSubscribe,
                             sActions := sActions c @ [Subscribe n]\<rparr>)))"
| "sensor_connect_event (SubscribeDone error) c =
     (if sStep c \<noteq> SAwaitSubscribe then c
      else case error of
        Some e \<Rightarrow>
          c\<lparr>sStep := SFinished,
            sPromise := reject (Error (''Failed to subscribe to characteristic: ''
                                       @ errorText e)) (sPromise c)\<rparr>
      | None \<Rightarrow>
          (case sFound c of
             None \<Rightarrow> c\<lparr>sStep := SFinished\<rparr>
           | Some p \<Rightarrow> c\<lparr>sStep := SFinished, sPromise := resolve p (sPromise c)\<rparr>))"
| "sensor_connect_event Disconnected c =
     (let c' = markFound ''disconnected'' c
      in c'\<lparr>sSensor := sensor_disconnect (sSensor c')\<rparr>)"
| "sensor_connect_event ev c = c"

subsection \<open>\<^verbatim>\<open>loadTemperatureData\<close>\<close>

definition GET_TEMPERATURE_COMMAND :: nat where
  "GET_TEMPERATURE_COMMAND = 0xd2"

text \<open>
  The part of \<^verbatim>\<open>loadTemperatureData\<close> that runs once \<^verbatim>\<open>connect()\<close> has resolved: the sensor,
  whether \<^verbatim>\<open>dataHandler\<close> is registered, the promise and the actions.
\<close>

record load_call =
  lSensor :: sensor
  lHandler :: bool
  lPromise :: "buffer promise"
  lActions :: "action list"

definition loadThen :: "sensor \<Rightarrow> load_call" where
  "loadThen s =
     (case temperatureData s of
        Some cached \<Rightarrow>
          \<lparr>lSensor = s, lHandler = False, lPromise = Resolved cached, lActions = []\<rparr>
      | None \<Rightarrow>
          (case sensor_notifyCharacteristic s of
             None \<Rightarrow> \<lparr>lSensor = s, lHandler = False, lPromise = Rejected TypeError,
                       lActions = []\<rparr>
           | Some n \<Rightarrow>
               (case sensor_writeCharacteristic s of
                  None \<Rightarrow> \<lparr>lSensor = s, lHandler = True, lPromise = Rejected TypeError,
                            lActions = []\<rparr>
                | Some w \<Rightarrow> \<lparr>lSensor = s, lHandler = True, lPromise = Pending,
                              lActions = [Write w [0xd2]]\<rparr>)))"

text \<open>
  One report while the load is waiting.  \<^verbatim>\<open>data.readUInt8(0)\<close> throws on an empty
  payload, and \<^verbatim>\<open>this.notifyCharacteristic.removeListener\<close> throws once a disconnect has
  emptied the field; both exceptions leave the handler before it resolves or rejects.
\<close>

fun load_event :: "radio_event \<Rightarrow> load_call \<Rightarrow> load_call" where
  "load_event (Notification data isNotification) c =
     (if lHandler c \<and> isNotification \<and> firstByteIs (Some GET_TEMPERATURE_COMMAND) data
      then let c' = c\<lparr>lSensor := (lSensor c)\<lparr>temperatureData := Some data\<rparr>\<rparr>
           in if sensor_notifyCharacteristic (lSensor c) = None then c'
              else c'\<lparr>lHandler := False, lPromise := resolve data (lPromise c)\<rparr>
      else c)"
| "load_event (WriteDone error) c =
     (case error of
        None \<Rightarrow> c
      | Some e \<Rightarrow>
          if sensor_notifyCharacteristic (lSensor c) = None then c
          else c\<lparr>lHandler := False,
                 lPromise := reject (Error (''Failed to write to characteristic: ''
                                            @ errorText e)) (lPromise c)\<rparr>)"
| "load_event Disconnected c = c\<lparr>lSensor := sensor_disconnect (lSensor c)\<rparr>"
| "load_event ev c = c"

text \<open>
  \<^verbatim>\<open>loadTemperatureData()\<close> as a whole: the \<^verbatim>\<open>connect()\<close> call, and the load once that call
  has resolved.  A rejected \<^verbatim>\<open>connect()\<close> rejects the load with the same reason.
\<close>

datatype load_state = Connecting sensor_call | Loading load_call | Failed js_error

definition loadStep :: "sensor_call \<Rightarrow> load_state" where
  "loadStep c =
     (case sPromise c of
        Pending \<Rightarrow> Connecting c
      | Resolved p \<Rightarrow> Loading (loadThen (sSensor c))
      | Rejected e \<Rightarrow> Failed e)"

definition loadTemperatureData :: "string \<Rightarrow> sensor \<Rightarrow> load_state" where
  "loadTemperatureData state s = loadStep (sensor_connect state s)"

fun loadTemperatureData_event :: "radio_event \<Rightarrow> load_state \<Rightarrow> load_state" where
  "loadTemperatureData_event ev (Connecting c) = loadStep (sensor_connect_event ev c)"
| "loadTemperatureData_event ev (Loading c) = Loading (load_event ev c)"
| "loadTemperatureData_event ev (Failed e) = Failed e"

fun loadPromise :: "load_state \<Rightarrow> buffer promise" where
  "loadPromise (Connecting c) = Pending"
| "loadPromise (Loading c) = lPromise c"
| "loadPromise (Failed e) = Rejected e"

section \<open>Invariants of the calls in flight\<close>

text \<open>What holds of a call that waits for a notification with first byte \<open>X\<close>.\<close>

definition awaiting :: "nat \<Rightarrow> write_call \<Rightarrow> bool" where
  "awaiting X c = (dataHandler c \<and> responseCommand c = Some X \<and> wPromise c = Pending)"

text \<open>The handles of the session are the ones a discovery callback among \<open>evs\<close> found.\<close>

fun discoveryOf :: "session \<Rightarrow> radio_event \<Rightarrow> bool" where
  "discoveryOf s (DiscoverDone error chs) =
     (error = None
      \<and> writeCharacteristic s = find (\<lambda>ch. uuid ch = WRITE_CHARACTERISTIC_UUID) chs
      \<and> notifyCharacteristic s = find (\<lambda>ch. uuid ch = NOTIFY_CHARACTERISTIC_UUID) chs)"
| "discoveryOf s ev = False"

definition rediscovered :: "radio_event list \<Rightarrow> session \<Rightarrow> bool" where
  "rediscovered evs s = list_ex (discoveryOf s) evs"


text \<open>A call that started on a connected peripheral never asks for a connection.\<close>

definition noConnect :: "connect_call \<Rightarrow> bool" where
  "noConnect c = (cStep c \<noteq> AwaitConnect \<and> PeripheralConnect \<notin> set (cActions c))"

section \<open>Properties of the codecs\<close>

lemma intToBCDByte_upto_99:
  "list_all (\<lambda>n. intToBCDByte n = 16 * (n div 10) + n mod 10) [0..99]"
  by (simp add: upto.simps[of 0] upto.simps[of 1] intToBCDByte_def toInt32_def
      js_quot_def js_rem_def)

lemma bcdByteToInt_upto_99:
  "list_all (\<lambda>n. bcdByteToInt (16 * (n div 10) + n mod 10) = n) [0..99]"
  by (simp add: upto.simps[of 0] upto.simps[of 1] bcdByteToInt_def toInt32_def)

lemma intToBCDByte_digits:
  assumes "0 \<le> n" "n \<le> 99"
  shows "intToBCDByte n = 16 * (n div 10) + n mod 10"
proof -
  have "n \<in> set [0..99]" using assms by simp
  with intToBCDByte_upto_99 show ?thesis
    unfolding list_all_iff by blast
qed

lemma bcdByteToInt_digits:
  assumes "0 \<le> n" "n \<le> 99"
  shows "bcdByteToInt (16 * (n div 10) + n mod 10) = n"
proof -
  have "n \<in> set [0..99]" using assms by simp
  with bcdByteToInt_upto_99 show ?thesis
    unfolding list_all_iff by blast
qed

text \<open>
  Claim C4.  For every integer \<open>n\<close> from 0 to 99, decoding the BCD encoding of \<open>n\<close> gives
  \<open>n\<close> back.  The encoding is a byte value whose high nibble (the value divided by 16) is
  the tens digit of \<open>n\<close> and whose low nibble (the value modulo 16) is the ones digit.
\<close>

theorem bcd_round_trip:
  assumes "0 \<le> n" and "n \<le> 99"
  shows "bcdByteToInt (intToBCDByte n) = n
       \<and> 0 \<le> intToBCDByte n \<and> intToBCDByte n \<le> 255
       \<and> intToBCDByte n div 16 = n div 10
       \<and> intToBCDByte n mod 16 = n mod 10"
proof -
  have enc: "intToBCDByte n = 16 * (n div 10) + n mod 10"
    using assms by (rule intToBCDByte_digits)
  have dec: "bcdByteToInt (16 * (n div 10) + n mod 10) = n"
    using assms by (rule bcdByteToInt_digits)
  have tens: "0 \<le> n div 10" "n div 10 \<le> 9"
    using assms by simp_all
  have ones: "0 \<le> n mod 10" "n mod 10 < 10"
    by simp_all
  show ?thesis
    using enc dec tens ones by auto
qed

theorem bcd_round_trip_witness:
  "(0::int) \<le> 59 \<and> (59::int) \<le> 99 \<and> bcdByteToInt (intToBCDByte 59) = 59
     \<and> intToBCDByte 59 = 0x59"
proof -
  have "bcdByteToInt (intToBCDByte 59) = 59"
    using bcd_round_trip [of 59] by simp
  moreover have "intToBCDByte 59 = 0x59"
    by (simp add: intToBCDByte_def toInt32_def js_quot_def js_rem_def)
  ultimately show ?thesis by simp
qed

lemma nibble_cases:
  "d < 16 \<Longrightarrow> d \<in> {0, 1, 2, 3, 4, 5, 6, 7, 8, 9, 10, 11, 12, 13, 14, 15 :: nat}"
  by (simp only: insert_iff empty_iff) arith

lemma hexDigit_props:
  assumes "d < 16"
  shows "digitOf (hexDigit d) = Some d" "\<not> isStrWhiteSpace (hexDigit d)"
    "hexDigit d \<noteq> CHR ''-''" "hexDigit d \<noteq> CHR ''+''"
    "hexDigit d \<noteq> CHR ''x''" "hexDigit d \<noteq> CHR ''X''"
  using nibble_cases[OF assms]
  by (auto simp: hexDigit_def digitOf_def isStrWhiteSpace_def)

lemma parseInt_two_hex:
  assumes "h < 16" "l < 16"
  shows "parseInt [hexDigit h, hexDigit l] =
    (if h \<le> 9 then (if l \<le> 9 then Some (int (10 * h + l)) else Some (int h)) else None)"
  using hexDigit_props[OF assms(1)] hexDigit_props[OF assms(2)]
  by (simp add: parseInt_def Let_def digitsValue_def)

lemma byte_nibbles: "unat (b :: byte) div 16 < 16" "unat (b :: byte) mod 16 < 16"
proof -
  have "unat b < 256" using unsigned_less[of b, where ?'a = nat] by simp
  then show "unat b div 16 < 16" by simp
  show "unat b mod 16 < 16" by simp
qed

text \<open>
  Claim C3, as the claim states it, fails: the byte \<open>0x2C\<close> is rendered \<^verbatim>\<open>"2c"\<close>, and
  \<^verbatim>\<open>parseInt\<close> stops at the letter, so the decoder returns 2 and not 28.
\<close>

theorem humidity_0x2C_counterexample:
  "readRelativeHumidity [0x2C] 0 = Some 2 \<and> readRelativeHumidity [0x2C] 0 \<noteq> Some 28"
  by (simp add: readRelativeHumidity_def toString_hex_def byteToHex_def hexDigit_def
      parseInt_def isStrWhiteSpace_def digitOf_def digitsValue_def Let_def)

text \<open>
  Claim C3, amended.  The humidity decoder reads the two hexadecimal digits of the byte
  as a decimal number when both are decimal digits (\<open>0x34\<close> decodes to 34).  When only
  the first is a decimal digit it returns that digit alone (\<open>0x2C\<close> decodes to 2), and
  when the first digit is a letter it returns \<^verbatim>\<open>NaN\<close>.
\<close>

theorem humidity_decodes_decimal_digits:
  "readRelativeHumidity [b] 0 =
     (if unat b div 16 \<le> 9
      then (if unat b mod 16 \<le> 9
            then Some (int (10 * (unat b div 16) + unat b mod 16))
            else Some (int (unat b div 16)))
      else None)
   \<and> readRelativeHumidity [0x34] 0 = Some 34"
proof -
  have hex: "readRelativeHumidity [c] 0
      = parseInt [hexDigit (unat c div 16), hexDigit (unat c mod 16)]" for c :: byte
    by (simp add: readRelativeHumidity_def toString_hex_def byteToHex_def)
  have general: "readRelativeHumidity [c] 0 =
     (if unat c div 16 \<le> 9
      then (if unat c mod 16 \<le> 9
            then Some (int (10 * (unat c div 16) + unat c mod 16))
            else Some (int (unat c div 16)))
      else None)" for c :: byte
    unfolding hex by (rule parseInt_two_hex) (rule byte_nibbles)+
  have "readRelativeHumidity [0x34] 0 = Some 34"
    unfolding general by simp
  with general show ?thesis by simp
qed

section \<open>Properties of the reading scan\<close>

lemma readUIntLE_in_range:
  "offset + byteLength \<le> length data \<Longrightarrow> \<exists>n. readUIntLE data offset byteLength = Inr n"
  by (simp add: readUIntLE_def)

text \<open>
  Claim C7.  A discovered peripheral whose manufacturer data is shorter than 9 bytes, or
  whose first two bytes read little-endian are not the company identifier \<open>0x4842\<close>,
  never has the reading callback called: the handler returns with no call.
\<close>

theorem short_or_foreign_never_reported:
  assumes "manufacturerData p = Some data"
    and "length data < 9 \<or> readUInt16LE data 0 \<noteq> Inr 0x4842"
  shows "discoverHandler parseReadings readingHandler addresses p = Inr []"
proof (cases "length data < 9")
  case True
  with assms(1) show ?thesis by (simp add: discoverHandler_def)
next
  case False
  then obtain c where c: "readUInt16LE data 0 = Inr c"
    using readUIntLE_in_range[of 0 2 data] by (auto simp: readUInt16LE_def)
  with assms(2) False have "c \<noteq> COMPANY_ID" by (simp add: COMPANY_ID_def)
  with assms(1) False c show ?thesis by (simp add: discoverHandler_def)
qed

theorem short_or_foreign_never_reported_witness:
  "discoverHandler (\<lambda>payload. [payload]) True None
     \<lparr>pid = ''a'', address = None, pstate = ''disconnected'',
      manufacturerData = Some [0x42, 0x48, 1, 2, 3, 4, 5, 6]\<rparr> = Inr []
   \<and> discoverHandler (\<lambda>payload. [payload]) True None
     \<lparr>pid = ''b'', address = None, pstate = ''disconnected'',
      manufacturerData = Some [0x4C, 0x00, 1, 2, 3, 4, 5, 6, 7, 8]\<rparr> = Inr []"
proof -
  have "discoverHandler (\<lambda>payload. [payload]) True None
     \<lparr>pid = ''a'', address = None, pstate = ''disconnected'',
      manufacturerData = Some [0x42, 0x48, 1, 2, 3, 4, 5, 6]\<rparr> = Inr []"
    using short_or_foreign_never_reported
      [of "\<lparr>pid = ''a'', address = None, pstate = ''disconnected'',
            manufacturerData = Some [0x42, 0x48, 1, 2, 3, 4, 5, 6]\<rparr>"
          "[0x42, 0x48, 1, 2, 3, 4, 5, 6]" "\<lambda>payload. [payload]" True None]
    by simp
  moreover have "discoverHandler (\<lambda>payload. [payload]) True None
     \<lparr>pid = ''b'', address = None, pstate = ''disconnected'',
      manufacturerData = Some [0x4C, 0x00, 1, 2, 3, 4, 5, 6, 7, 8]\<rparr> = Inr []"
    using short_or_foreign_never_reported
      [of "\<lparr>pid = ''b'', address = None, pstate = ''disconnected'',
            manufacturerData = Some [0x4C, 0x00, 1, 2, 3, 4, 5, 6, 7, 8]\<rparr>"
          "[0x4C, 0x00, 1, 2, 3, 4, 5, 6, 7, 8]" "\<lambda>payload. [payload]" True None]
    by (simp add: readUInt16LE_def readUIntLE_def)
  ultimately show ?thesis by simp
qed

text \<open>
  Claim C10.  The handler reads the length of the manufacturer data before it checks
  anything.  On a peripheral with no manufacturer-data field it throws a TypeError, and
  none of its other reads throws: whenever the field is present the handler goes on to
  its end, either with no call (the advertisement is discarded) or with the calls of the
  reading callback.
\<close>

theorem handler_throws_iff_no_manufacturer_data:
  "(discoverHandler parseReadings readingHandler addresses p = Inl TypeError)
     = (manufacturerData p = None)
   \<and> (\<exists>e. discoverHandler parseReadings readingHandler addresses p = Inl e)
     = (manufacturerData p = None)"
proof -
  have absent: "discoverHandler parseReadings readingHandler addresses p = Inl TypeError"
    if "manufacturerData p = None"
    using that by (simp add: discoverHandler_def)
  have present: "\<exists>cs. discoverHandler parseReadings readingHandler addresses p = Inr cs"
    if d: "manufacturerData p = Some data" for data
  proof (cases "length data < 9")
    case True
    with d show ?thesis by (simp add: discoverHandler_def)
  next
    case False
    then obtain c n where "readUInt16LE data 0 = Inr c" "readUIntLE data 2 6 = Inr n"
      using readUIntLE_in_range[of 0 2 data] readUIntLE_in_range[of 2 6 data]
      by (auto simp: readUInt16LE_def)
    with d False show ?thesis
      by (simp add: discoverHandler_def Let_def)
  qed
  show ?thesis
    using absent present by (cases "manufacturerData p") auto
qed

text \<open>
  Claim C6, as the claim states it, fails: the comparison is guarded by the truthiness of
  the peripheral's address.  A peripheral that reports no address differs from every
  address derived from the manufacturer data, and its readings are still reported.
\<close>

theorem address_check_skipped_counterexample:
  "derivedAddress [0x42, 0x48, 0xff, 0xee, 0xdd, 0xcc, 0xbb, 0xaa, 0x01]
     \<noteq> map_option stripColons
         (address \<lparr>pid = ''p'', address = None, pstate = ''disconnected'',
            manufacturerData = Some [0x42, 0x48, 0xff, 0xee, 0xdd, 0xcc, 0xbb, 0xaa, 0x01]\<rparr>)
   \<and> discoverHandler (\<lambda>payload. [payload]) True None
        \<lparr>pid = ''p'', address = None, pstate = ''disconnected'',
         manufacturerData = Some [0x42, 0x48, 0xff, 0xee, 0xdd, 0xcc, 0xbb, 0xaa, 0x01]\<rparr>
      = Inr [([0x01],
         \<lparr>pid = ''p'', address = None, pstate = ''disconnected'',
          manufacturerData = Some [0x42, 0x48, 0xff, 0xee, 0xdd, 0xcc, 0xbb, 0xaa, 0x01]\<rparr>)]"
  by (simp add: derivedAddress_def discoverHandler_def readUInt16LE_def readUIntLE_def
      COMPANY_ID_def truthy_def)

text \<open>
  Claim C6, amended.  For a discovered peripheral whose colon-stripped address is a
  non-empty string, the address derived from bytes 2 to 7 of the manufacturer data (read
  little-endian, rendered in hexadecimal) is compared with it, and the advertisement is
  discarded whenever the two differ.  For a peripheral with no address, or an empty one,
  the comparison is skipped: with a valid header and no allowlist, every reading of the
  payload is reported.
\<close>

theorem address_mismatch_discards:
  assumes "manufacturerData p = Some data"
  shows "(truthy (map_option stripColons (address p))
            \<and> derivedAddress data \<noteq> map_option stripColons (address p)
          \<longrightarrow> discoverHandler parseReadings readingHandler addresses p = Inr [])
       \<and> (\<not> truthy (map_option stripColons (address p))
            \<and> 9 \<le> length data \<and> readUInt16LE data 0 = Inr 0x4842
          \<longrightarrow> discoverHandler parseReadings True None p
               = Inr (map (\<lambda>reading. (reading, p)) (parseReadings (drop 8 data))))"
proof (cases "length data < 9")
  case True
  with assms show ?thesis by (simp add: discoverHandler_def)
next
  case False
  then obtain c n where c: "readUInt16LE data 0 = Inr c" and n: "readUIntLE data 2 6 = Inr n"
    using readUIntLE_in_range[of 0 2 data] readUIntLE_in_range[of 2 6 data]
    by (auto simp: readUInt16LE_def)
  show ?thesis
    using assms False c n
    by (simp add: discoverHandler_def derivedAddress_def Let_def COMPANY_ID_def)
qed

theorem address_mismatch_discards_witness:
  "discoverHandler (\<lambda>payload. [payload]) True None
     \<lparr>pid = ''p'', address = Some ''aa:bb:cc:dd:ee:00'', pstate = ''disconnected'',
      manufacturerData = Some [0x42, 0x48, 0xff, 0xee, 0xdd, 0xcc, 0xbb, 0xaa, 0x01]\<rparr> = Inr []
   \<and> discoverHandler (\<lambda>payload. [payload]) True None
     \<lparr>pid = ''q'', address = Some [], pstate = ''disconnected'',
      manufacturerData = Some [0x42, 0x48, 0xff, 0xee, 0xdd, 0xcc, 0xbb, 0xaa, 0x01]\<rparr>
     = Inr [([0x01], \<lparr>pid = ''q'', address = Some [], pstate = ''disconnected'',
      manufacturerData = Some [0x42, 0x48, 0xff, 0xee, 0xdd, 0xcc, 0xbb, 0xaa, 0x01]\<rparr>)]"
proof -
  have d: "derivedAddress [0x42, 0x48, 0xff, 0xee, 0xdd, 0xcc, 0xbb, 0xaa, 0x01]
      = Some ''aabbccddeeff''"
    by (simp add: derivedAddress_def readUIntLE_def toString16.simps hexDigit_def)
  have "discoverHandler (\<lambda>payload. [payload]) True None
     \<lparr>pid = ''p'', address = Some ''aa:bb:cc:dd:ee:00'', pstate = ''disconnected'',
      manufacturerData = Some [0x42, 0x48, 0xff, 0xee, 0xdd, 0xcc, 0xbb, 0xaa, 0x01]\<rparr> = Inr []"
    using d address_mismatch_discards
      [of "\<lparr>pid = ''p'', address = Some ''aa:bb:cc:dd:ee:00'', pstate = ''disconnected'',
            manufacturerData = Some [0x42, 0x48, 0xff, 0xee, 0xdd, 0xcc, 0xbb, 0xaa, 0x01]\<rparr>"
          "[0x42, 0x48, 0xff, 0xee, 0xdd, 0xcc, 0xbb, 0xaa, 0x01]"
          "\<lambda>payload. [payload]" True None]
    by (simp add: truthy_def stripColons_def)
  moreover have "discoverHandler (\<lambda>payload. [payload]) True None
     \<lparr>pid = ''q'', address = Some [], pstate = ''disconnected'',
      manufacturerData = Some [0x42, 0x48, 0xff, 0xee, 0xdd, 0xcc, 0xbb, 0xaa, 0x01]\<rparr>
     = Inr [([0x01], \<lparr>pid = ''q'', address = Some [], pstate = ''disconnected'',
      manufacturerData = Some [0x42, 0x48, 0xff, 0xee, 0xdd, 0xcc, 0xbb, 0xaa, 0x01]\<rparr>)]"
    using address_mismatch_discards
      [of "\<lparr>pid = ''q'', address = Some [], pstate = ''disconnected'',
            manufacturerData = Some [0x42, 0x48, 0xff, 0xee, 0xdd, 0xcc, 0xbb, 0xaa, 0x01]\<rparr>"
          "[0x42, 0x48, 0xff, 0xee, 0xdd, 0xcc, 0xbb, 0xaa, 0x01]"
          "\<lambda>payload. [payload]" True None]
    by (simp add: truthy_def stripColons_def readUInt16LE_def readUIntLE_def)
  ultimately show ?thesis by simp
qed

section \<open>Properties of the radio wait\<close>

lemma powerOn_event_settled:
  "outcome w \<noteq> Pending \<Longrightarrow> outcome (powerOn_event ev w) = outcome w"
  by (cases ev) (auto simp: resolve_def reject_def split: promise.splits option.splits)

lemma powerOn_settled:
  "outcome w \<noteq> Pending \<Longrightarrow> outcome (fold powerOn_event evs w) = outcome w"
proof (induction evs arbitrary: w)
  case Nil
  then show ?case by simp
next
  case (Cons ev evs)
  then show ?case using powerOn_event_settled[of w ev] by simp
qed

lemma powerOn_waiting:
  assumes "timer w = Some left" "0 < left" "outcome w = Pending" and "neverPoweredOn evs"
  shows "(left \<le> elapsed evs \<longrightarrow>
            (\<exists>st. outcome (fold powerOn_event evs w)
               = Rejected (Error (''Timeout while waiting for power on (state: '' @ st @ '')''))))
       \<and> (elapsed evs < left \<longrightarrow> outcome (fold powerOn_event evs w) = Pending)"
  using assms
proof (induction evs arbitrary: w left)
  case Nil
  then show ?case by simp
next
  case (Cons ev evs)
  have rest: "neverPoweredOn evs"
    using Cons.prems(4) by (simp add: neverPoweredOn_def)
  show ?case
  proof (cases ev)
    case (StateChange st)
    with Cons.prems have "st \<noteq> ''poweredOn''"
      by (auto simp: neverPoweredOn_def)
    with StateChange Cons.prems
    have "timer (powerOn_event ev w) = Some left" "0 < left"
      "outcome (powerOn_event ev w) = Pending"
      by simp_all
    from Cons.IH[OF this rest] StateChange show ?thesis by simp
  next
    case (Elapse ms)
    show ?thesis
    proof (cases "ms < left")
      case True
      with Elapse Cons.prems
      have "timer (powerOn_event ev w) = Some (left - ms)" "0 < left - ms"
        "outcome (powerOn_event ev w) = Pending"
        by simp_all
      from Cons.IH[OF this rest] Elapse True show ?thesis by auto
    next
      case False
      with Elapse Cons.prems
      have r: "outcome (powerOn_event ev w)
        = Rejected (Error (''Timeout while waiting for power on (state: '' @ nobleState w @ '')''))"
        by (simp add: reject_def)
      then have "outcome (fold powerOn_event evs (powerOn_event ev w))
        = Rejected (Error (''Timeout while waiting for power on (state: '' @ nobleState w @ '')''))"
        using powerOn_settled[of "powerOn_event ev w" evs] by simp
      with Elapse False show ?thesis by auto
    qed
  qed (use Cons.prems Cons.IH[OF _ _ _ rest] in auto)
qed

lemma isPoweredOn_waiting:
  assumes "outcome w = Pending" and "neverPoweredOn evs"
  shows "outcome (fold isPoweredOn_event evs w) = Pending"
  using assms
proof (induction evs arbitrary: w)
  case Nil
  then show ?case by simp
next
  case (Cons ev evs)
  have "outcome (isPoweredOn_event ev w) = Pending"
    using Cons.prems by (cases ev) (auto simp: neverPoweredOn_def)
  moreover have "neverPoweredOn evs"
    using Cons.prems by (simp add: neverPoweredOn_def)
  ultimately show ?case using Cons.IH by simp
qed


text \<open>
  Claim C5, as the claim states it, fails: \<^verbatim>\<open>ThermSmartSensor.isPoweredOn\<close> arms no timer.
  With the radio off it is still pending after more than ten minutes.
\<close>

theorem radio_wait_counterexample:
  "outcome (fold isPoweredOn_event [Elapse 5000, StateChange ''poweredOff'', Elapse 600000]
              (isPoweredOn ''poweredOff'')) = Pending"
  by (simp add: isPoweredOn_def)

text \<open>
  Claim C5, amended.  When the radio is not powered on at the call and never reaches the
  powered-on state, \<^verbatim>\<open>ThermSmart.powerOn\<close> (on which \<^verbatim>\<open>scan\<close> and \<^verbatim>\<open>scanForReadings\<close> wait)
  is pending until 5000 milliseconds have passed and is rejected with the timeout error
  from then on.  \<^verbatim>\<open>ThermSmartSensor.isPoweredOn\<close> has no timer: it stays pending as long
  as the radio does not power on.
\<close>

theorem powerOn_times_out:
  assumes "state \<noteq> ''poweredOn''" and "neverPoweredOn evs"
  shows "(5000 \<le> elapsed evs \<longrightarrow>
            (\<exists>st. outcome (fold powerOn_event evs (powerOn state))
               = Rejected (Error (''Timeout while waiting for power on (state: '' @ st @ '')''))))
       \<and> (elapsed evs < 5000 \<longrightarrow> outcome (fold powerOn_event evs (powerOn state)) = Pending)
       \<and> outcome (fold isPoweredOn_event evs (isPoweredOn state)) = Pending"
proof -
  have "timer (powerOn state) = Some 5000" "(0::nat) < 5000" "outcome (powerOn state) = Pending"
    using assms(1) by (simp_all add: powerOn_def)
  from powerOn_waiting[OF this assms(2)]
  have "(5000 \<le> elapsed evs \<longrightarrow>
            (\<exists>st. outcome (fold powerOn_event evs (powerOn state))
               = Rejected (Error (''Timeout while waiting for power on (state: '' @ st @ '')''))))
       \<and> (elapsed evs < 5000 \<longrightarrow> outcome (fold powerOn_event evs (powerOn state)) = Pending)" .
  moreover have "outcome (isPoweredOn state) = Pending"
    using assms(1) by (simp add: isPoweredOn_def)
  then have "outcome (fold isPoweredOn_event evs (isPoweredOn state)) = Pending"
    using assms(2) by (rule isPoweredOn_waiting)
  ultimately show ?thesis by simp
qed

theorem powerOn_times_out_witness:
  "outcome (fold powerOn_event [Elapse 3000, StateChange ''poweredOff'', Elapse 2000]
              (powerOn ''unknown''))
     = Rejected (Error ''Timeout while waiting for power on (state: poweredOff)'')
   \<and> outcome (fold powerOn_event [Elapse 3000, StateChange ''poweredOff'', Elapse 1999]
              (powerOn ''unknown'')) = Pending
   \<and> outcome (fold isPoweredOn_event [Elapse 3000, StateChange ''poweredOff'', Elapse 2000]
              (isPoweredOn ''unknown'')) = Pending"
proof -
  have a: "outcome (fold powerOn_event [Elapse 3000, StateChange ''poweredOff'', Elapse 2000]
              (powerOn ''unknown''))
     = Rejected (Error ''Timeout while waiting for power on (state: poweredOff)'')"
    by (simp add: powerOn_def reject_def)
  have "outcome (fold powerOn_event [Elapse 3000, StateChange ''poweredOff'', Elapse 1999]
              (powerOn ''unknown'')) = Pending
   \<and> outcome (fold isPoweredOn_event [Elapse 3000, StateChange ''poweredOff'', Elapse 2000]
              (isPoweredOn ''unknown'')) = Pending"
    using powerOn_times_out[of "''unknown''" "[Elapse 3000, StateChange ''poweredOff'', Elapse 1999]"]
      powerOn_times_out[of "''unknown''" "[Elapse 3000, StateChange ''poweredOff'', Elapse 2000]"]
    by (simp add: neverPoweredOn_def)
  with a show ?thesis by simp
qed

section \<open>Properties of \<^verbatim>\<open>write\<close>\<close>

lemma write_event_settled:
  "wPromise c \<noteq> Pending \<Longrightarrow> wPromise (write_event ev c) = wPromise c"
  by (cases ev) (auto simp: resolve_def reject_def Let_def split: promise.splits option.splits)

lemma write_settled:
  "wPromise c \<noteq> Pending \<Longrightarrow> wPromise (fold write_event evs c) = wPromise c"
proof (induction evs arbitrary: c)
  case Nil
  then show ?case by simp
next
  case (Cons ev evs)
  then show ?case using write_event_settled[of c ev] by simp
qed

lemma awaiting_write_event:
  "awaiting X c \<Longrightarrow> unanswered X ev \<Longrightarrow> awaiting X (write_event ev c)"
  by (cases ev) (auto simp: awaiting_def Let_def)

lemma awaiting_fold:
  "awaiting X c \<Longrightarrow> list_all (unanswered X) evs \<Longrightarrow> awaiting X (fold write_event evs c)"
proof (induction evs arbitrary: c)
  case Nil
  then show ?case by simp
next
  case (Cons ev evs)
  then show ?case using awaiting_write_event[of X c ev] by simp
qed

lemma awaiting_write_cmd: "ready s \<Longrightarrow> awaiting X (write_cmd s data (Some X))"
  by (auto simp: ready_def write_cmd_def awaiting_def)

text \<open>
  Claim C1.  On a ready session, \<^verbatim>\<open>write(data, X)\<close> with a response code \<open>X\<close> stays pending
  through every notification whose first byte is not \<open>X\<close> (and through the
  acknowledgement of the write), and it resolves with the first notification whose first
  byte is \<open>X\<close>, whatever arrives later.
\<close>

theorem write_resolves_with_first_match:
  assumes "ready s" and "list_all (unanswered X) before" and "firstByteIs (Some X) payload"
  shows "wPromise (fold write_event before (write_cmd s data (Some X))) = Pending
       \<and> wPromise (fold write_event (before @ Notification payload flag # after)
                     (write_cmd s data (Some X))) = Resolved (Some payload)"
proof -
  let ?c = "fold write_event before (write_cmd s data (Some X))"
  have w: "awaiting X ?c"
    using assms(1,2) by (simp add: awaiting_write_cmd awaiting_fold)
  then have "wPromise (write_event (Notification payload flag) ?c) = Resolved (Some payload)"
    using assms(3) by (simp add: awaiting_def resolve_def)
  then have "wPromise (fold write_event after (write_event (Notification payload flag) ?c))
      = Resolved (Some payload)"
    using write_settled[of "write_event (Notification payload flag) ?c" after] by simp
  with w show ?thesis by (simp add: awaiting_def)
qed

theorem write_resolves_with_first_match_witness:
  "wPromise (fold write_event
       [WriteDone None, Notification [0xd2, 0x07] True, Notification [0xd1, 0x01, 0x26] True,
        Notification [0xd1, 0x02] True]
       (write_cmd \<lparr>peripheral = \<lparr>pid = ''p'', address = Some ''aa:bb:cc:dd:ee:ff'',
                                  pstate = ''connected'', manufacturerData = None\<rparr>,
                   writeCharacteristic = Some \<lparr>uuid = ''fff3'', handle = 1\<rparr>,
                   notifyCharacteristic = Some \<lparr>uuid = ''fff4'', handle = 2\<rparr>\<rparr>
          [0xd1, 0x01] (Some 0xd1)))
     = Resolved (Some [0xd1, 0x01, 0x26])"
  using write_resolves_with_first_match
    [of "\<lparr>peripheral = \<lparr>pid = ''p'', address = Some ''aa:bb:cc:dd:ee:ff'',
                          pstate = ''connected'', manufacturerData = None\<rparr>,
           writeCharacteristic = Some \<lparr>uuid = ''fff3'', handle = 1\<rparr>,
           notifyCharacteristic = Some \<lparr>uuid = ''fff4'', handle = 2\<rparr>\<rparr>"
        "0xd1" "[WriteDone None, Notification [0xd2, 0x07] True]" "[0xd1, 0x01, 0x26]"
        "[0xd1, 0x01]" True "[Notification [0xd1, 0x02] True]"]
  by (simp add: ready_def firstByteIs_def)

text \<open>
  Claim C2 asks that a disconnect fail a write that waits for its response.  The code
  does not: after the acknowledgement of the write and a disconnect, the promise of
  \<^verbatim>\<open>ThermSmart.write\<close> is still pending, and so is that of
  \<^verbatim>\<open>ThermSmartSensor.loadTemperatureData\<close>.
\<close>

theorem pending_write_survives_disconnect:
  "wPromise (fold write_event [WriteDone None, Disconnected]
       (write_cmd \<lparr>peripheral = \<lparr>pid = ''p'', address = Some ''aa:bb:cc:dd:ee:ff'',
                                  pstate = ''connected'', manufacturerData = None\<rparr>,
                   writeCharacteristic = Some \<lparr>uuid = ''fff3'', handle = 1\<rparr>,
                   notifyCharacteristic = Some \<lparr>uuid = ''fff4'', handle = 2\<rparr>\<rparr>
          [0xd1, 0x01] (Some 0xd1))) = Pending
   \<and> loadPromise (fold loadTemperatureData_event [WriteDone None, Disconnected]
       (loadTemperatureData ''poweredOn''
          \<lparr>sensor_address = None,
           sensor_peripheral = Some \<lparr>pid = ''p'', address = Some ''aa:bb:cc:dd:ee:ff'',
                                     pstate = ''connected'', manufacturerData = None\<rparr>,
           sensor_writeCharacteristic = Some \<lparr>uuid = ''fff3'', handle = 1\<rparr>,
           sensor_notifyCharacteristic = Some \<lparr>uuid = ''fff4'', handle = 2\<rparr>,
           temperatureData = None\<rparr>)) = Pending"
  by (simp add: write_cmd_def setState_def loadTemperatureData_def sensor_connect_def
      afterPower_def afterScan_def loadStep_def loadThen_def resolve_def sensor_disconnect_def
      handleDisconnect_def)

section \<open>Properties of \<^verbatim>\<open>connect\<close>\<close>


lemma discoveryOf_setState [simp]:
  "discoveryOf (setState st s) = discoveryOf s"
proof
  fix ev
  show "discoveryOf (setState st s) ev = discoveryOf s ev"
    by (cases ev) (simp_all add: setState_def)
qed

lemma rediscovered_setState [simp]:
  "rediscovered evs (setState st s) = rediscovered evs s"
  by (simp add: rediscovered_def)




lemma noConnect_event: "noConnect c \<Longrightarrow> noConnect (connect_event ev c)"
  by (cases ev)
    (auto simp: noConnect_def Let_def setupListeners_def getCharacteristics_def
      split: option.splits)

lemma noConnect_fold: "noConnect c \<Longrightarrow> noConnect (fold connect_event evs c)"
proof (induction evs arbitrary: c)
  case Nil
  then show ?case by simp
next
  case (Cons ev evs)
  then show ?case using noConnect_event[of c ev] by simp
qed

text \<open>
  Claim C9, as the claim states it, fails: on a ready session \<^verbatim>\<open>ThermSmart.connect\<close> is
  pending when it returns, runs the characteristic discovery and the subscription
  again, and assigns the handles that this discovery found.
\<close>

theorem connect_when_ready_counterexample:
  "cPromise (connect \<lparr>peripheral = \<lparr>pid = ''p'', address = Some ''aa:bb:cc:dd:ee:ff'',
                                     pstate = ''connected'', manufacturerData = None\<rparr>,
                       writeCharacteristic = Some \<lparr>uuid = ''fff3'', handle = 1\<rparr>,
                       notifyCharacteristic = Some \<lparr>uuid = ''fff4'', handle = 2\<rparr>\<rparr>)
     = Pending
   \<and> cActions (fold connect_event
         [DiscoverDone None [\<lparr>uuid = ''fff3'', handle = 11\<rparr>, \<lparr>uuid = ''fff4'', handle = 12\<rparr>],
          SubscribeDone None]
         (connect \<lparr>peripheral = \<lparr>pid = ''p'', address = Some ''aa:bb:cc:dd:ee:ff'',
                                    pstate = ''connected'', manufacturerData = None\<rparr>,
                    writeCharacteristic = Some \<lparr>uuid = ''fff3'', handle = 1\<rparr>,
                    notifyCharacteristic = Some \<lparr>uuid = ''fff4'', handle = 2\<rparr>\<rparr>))
     = [Emit ''connecting'', DiscoverCharacteristics,
        Subscribe \<lparr>uuid = ''fff4'', handle = 12\<rparr>, Emit ''connected'']
   \<and> cSession (fold connect_event
         [DiscoverDone None [\<lparr>uuid = ''fff3'', handle = 11\<rparr>, \<lparr>uuid = ''fff4'', handle = 12\<rparr>],
          SubscribeDone None]
         (connect \<lparr>peripheral = \<lparr>pid = ''p'', address = Some ''aa:bb:cc:dd:ee:ff'',
                                    pstate = ''connected'', manufacturerData = None\<rparr>,
                    writeCharacteristic = Some \<lparr>uuid = ''fff3'', handle = 1\<rparr>,
                    notifyCharacteristic = Some \<lparr>uuid = ''fff4'', handle = 2\<rparr>\<rparr>))
     = \<lparr>peripheral = \<lparr>pid = ''p'', address = Some ''aa:bb:cc:dd:ee:ff'',
                       pstate = ''connected'', manufacturerData = None\<rparr>,
         writeCharacteristic = Some \<lparr>uuid = ''fff3'', handle = 11\<rparr>,
         notifyCharacteristic = Some \<lparr>uuid = ''fff4'', handle = 12\<rparr>\<rparr>"
  by (simp add: connect_def getCharacteristics_def setupListeners_def
      WRITE_CHARACTERISTIC_UUID_def NOTIFY_CHARACTERISTIC_UUID_def)

text \<open>
  Claim C9, amended.  On a session whose peripheral is connected, \<^verbatim>\<open>ThermSmart.connect\<close>
  never asks for the connection again; it still runs the characteristic discovery and,
  once that has found a notify characteristic, the subscription, and it resolves when
  both have succeeded.  It then holds the write and notify characteristics that this
  discovery found, in place of the ones it held before, and the same peripheral.
  \<^verbatim>\<open>ThermSmartSensor.connect\<close>, with the radio powered on and its
  peripheral connected, resolves at once with that peripheral, does nothing on the radio
  and leaves the sensor unchanged.
\<close>

theorem connect_skips_only_the_connection:
  assumes "pstate (peripheral s) = ''connected''"
    and "sensor_peripheral t = Some p" and "pstate p = ''connected''"
    and "find (\<lambda>ch. uuid ch = NOTIFY_CHARACTERISTIC_UUID) chs = Some n"
  shows "PeripheralConnect \<notin> set (cActions (fold connect_event evs (connect s)))
       \<and> cPromise (connect s) = Pending
       \<and> cActions (connect s) = [Emit ''connecting'', DiscoverCharacteristics]
       \<and> cPromise (fold connect_event [DiscoverDone None chs, SubscribeDone None] (connect s))
           = Resolved ()
       \<and> cActions (fold connect_event [DiscoverDone None chs, SubscribeDone None] (connect s))
           = [Emit ''connecting'', DiscoverCharacteristics, Subscribe n, Emit ''connected'']
       \<and> writeCharacteristic
             (cSession (fold connect_event [DiscoverDone None chs, SubscribeDone None] (connect s)))
           = find (\<lambda>ch. uuid ch = WRITE_CHARACTERISTIC_UUID) chs
       \<and> notifyCharacteristic
             (cSession (fold connect_event [DiscoverDone None chs, SubscribeDone None] (connect s)))
           = Some n
       \<and> peripheral
             (cSession (fold connect_event [DiscoverDone None chs, SubscribeDone None] (connect s)))
           = peripheral s
       \<and> sPromise (sensor_connect ''poweredOn'' t) = Resolved p
       \<and> sActions (sensor_connect ''poweredOn'' t) = []
       \<and> sSensor (sensor_connect ''poweredOn'' t) = t"
proof -
  have "noConnect (connect s)"
    using assms(1) by (simp add: noConnect_def connect_def getCharacteristics_def)
  then have "noConnect (fold connect_event evs (connect s))"
    by (rule noConnect_fold)
  then have "PeripheralConnect \<notin> set (cActions (fold connect_event evs (connect s)))"
    by (simp add: noConnect_def)
  moreover have "cPromise (connect s) = Pending
       \<and> cActions (connect s) = [Emit ''connecting'', DiscoverCharacteristics]"
    using assms(1) by (simp add: connect_def getCharacteristics_def)
  moreover have "cPromise (fold connect_event [DiscoverDone None chs, SubscribeDone None]
                    (connect s)) = Resolved ()
       \<and> cActions (fold connect_event [DiscoverDone None chs, SubscribeDone None] (connect s))
           = [Emit ''connecting'', DiscoverCharacteristics, Subscribe n, Emit ''connected'']"
    using assms(1,4) by (simp add: connect_def getCharacteristics_def setupListeners_def)
  moreover have "writeCharacteristic
             (cSession (fold connect_event [DiscoverDone None chs, SubscribeDone None] (connect s)))
           = find (\<lambda>ch. uuid ch = WRITE_CHARACTERISTIC_UUID) chs
       \<and> notifyCharacteristic
             (cSession (fold connect_event [DiscoverDone None chs, SubscribeDone None] (connect s)))
           = Some n
       \<and> peripheral
             (cSession (fold connect_event [DiscoverDone None chs, SubscribeDone None] (connect s)))
           = peripheral s"
    using assms(1,4) by (simp add: connect_def getCharacteristics_def setupListeners_def)
  moreover have "sPromise (sensor_connect ''poweredOn'' t) = Resolved p
       \<and> sActions (sensor_connect ''poweredOn'' t) = []
       \<and> sSensor (sensor_connect ''poweredOn'' t) = t"
    using assms(2,3) by (simp add: sensor_connect_def afterPower_def afterScan_def resolve_def)
  ultimately show ?thesis by simp
qed

theorem connect_skips_only_the_connection_witness:
  "PeripheralConnect \<notin> set (cActions (fold connect_event
         [DiscoverDone None [\<lparr>uuid = ''fff3'', handle = 11\<rparr>, \<lparr>uuid = ''fff4'', handle = 12\<rparr>],
          SubscribeDone None]
         (connect \<lparr>peripheral = \<lparr>pid = ''p'', address = Some ''aa:bb:cc:dd:ee:ff'',
                                    pstate = ''connected'', manufacturerData = None\<rparr>,
                    writeCharacteristic = Some \<lparr>uuid = ''fff3'', handle = 1\<rparr>,
                    notifyCharacteristic = Some \<lparr>uuid = ''fff4'', handle = 2\<rparr>\<rparr>)))
   \<and> writeCharacteristic (cSession (fold connect_event
         [DiscoverDone None [\<lparr>uuid = ''fff3'', handle = 11\<rparr>, \<lparr>uuid = ''fff4'', handle = 12\<rparr>],
          SubscribeDone None]
         (connect \<lparr>peripheral = \<lparr>pid = ''p'', address = Some ''aa:bb:cc:dd:ee:ff'',
                                    pstate = ''connected'', manufacturerData = None\<rparr>,
                    writeCharacteristic = Some \<lparr>uuid = ''fff3'', handle = 1\<rparr>,
                    notifyCharacteristic = Some \<lparr>uuid = ''fff4'', handle = 2\<rparr>\<rparr>)))
     = Some \<lparr>uuid = ''fff3'', handle = 11\<rparr>
   \<and> notifyCharacteristic (cSession (fold connect_event
         [DiscoverDone None [\<lparr>uuid = ''fff3'', handle = 11\<rparr>, \<lparr>uuid = ''fff4'', handle = 12\<rparr>],
          SubscribeDone None]
         (connect \<lparr>peripheral = \<lparr>pid = ''p'', address = Some ''aa:bb:cc:dd:ee:ff'',
                                    pstate = ''connected'', manufacturerData = None\<rparr>,
                    writeCharacteristic = Some \<lparr>uuid = ''fff3'', handle = 1\<rparr>,
                    notifyCharacteristic = Some \<lparr>uuid = ''fff4'', handle = 2\<rparr>\<rparr>)))
     = Some \<lparr>uuid = ''fff4'', handle = 12\<rparr>
   \<and> sPromise (sensor_connect ''poweredOn''
        \<lparr>sensor_address = None,
         sensor_peripheral = Some \<lparr>pid = ''p'', address = Some ''aa:bb:cc:dd:ee:ff'',
                                   pstate = ''connected'', manufacturerData = None\<rparr>,
         sensor_writeCharacteristic = Some \<lparr>uuid = ''fff3'', handle = 1\<rparr>,
         sensor_notifyCharacteristic = Some \<lparr>uuid = ''fff4'', handle = 2\<rparr>,
         temperatureData = None\<rparr>)
     = Resolved \<lparr>pid = ''p'', address = Some ''aa:bb:cc:dd:ee:ff'',
                 pstate = ''connected'', manufacturerData = None\<rparr>"
  using connect_skips_only_the_connection
    [of "\<lparr>peripheral = \<lparr>pid = ''p'', address = Some ''aa:bb:cc:dd:ee:ff'',
                          pstate = ''connected'', manufacturerData = None\<rparr>,
           writeCharacteristic = Some \<lparr>uuid = ''fff3'', handle = 1\<rparr>,
           notifyCharacteristic = Some \<lparr>uuid = ''fff4'', handle = 2\<rparr>\<rparr>"
        "\<lparr>sensor_address = None,
          sensor_peripheral = Some \<lparr>pid = ''p'', address = Some ''aa:bb:cc:dd:ee:ff'',
                                    pstate = ''connected'', manufacturerData = None\<rparr>,
          sensor_writeCharacteristic = Some \<lparr>uuid = ''fff3'', handle = 1\<rparr>,
          sensor_notifyCharacteristic = Some \<lparr>uuid = ''fff4'', handle = 2\<rparr>,
          temperatureData = None\<rparr>"
        "\<lparr>pid = ''p'', address = Some ''aa:bb:cc:dd:ee:ff'',
          pstate = ''connected'', manufacturerData = None\<rparr>"
        "[\<lparr>uuid = ''fff3'', handle = 11\<rparr>, \<lparr>uuid = ''fff4'', handle = 12\<rparr>]"
        "\<lparr>uuid = ''fff4'', handle = 12\<rparr>"
        "[DiscoverDone None [\<lparr>uuid = ''fff3'', handle = 11\<rparr>, \<lparr>uuid = ''fff4'', handle = 12\<rparr>],
          SubscribeDone None]"]
  by (simp add: NOTIFY_CHARACTERISTIC_UUID_def WRITE_CHARACTERISTIC_UUID_def)

section \<open>Properties of the handles across a disconnect\<close>




end
